theory Spec2Isabelle
  imports Main "HOL-Library.Multiset" "HOL-Library.Sublist"
begin

section \<open>Data model of the autodiscover package\<close>

text \<open>
  Go's \<open>error\<close> values are opaque to this package: they are only tested against
  \<open>nil\<close> and printed.  A run-time panic (an index out of range, a failed gomega
  expectation) ends the call that raised it and every caller up the stack.
\<close>

datatype error = GoError string

datatype abort = IndexOutOfRange | AssertionFailed

text \<open>\<open>configsections.Label\<close>, \<open>Pod\<close>, \<open>Operator\<close>, \<open>Deployment\<close>, \<open>Node\<close>,
  \<open>CrdFilter\<close> and \<open>TestTarget\<close>.  Field names carry the struct's name where two
  structs share a field name.\<close>

record Label =
  Prefix :: string
  LabelName :: string
  Value :: string

record Pod =
  PodNamespace :: string
  PodName :: string
  ServiceAccount :: string
  ContainerCount :: int
  PodTests :: "string list"

record Operator =
  OpName :: string
  OpNamespace :: string
  OpTests :: "string list"
  SubscriptionName :: string

record Deployment =
  DepName :: string
  DepNamespace :: string
  Replicas :: int

record Node =
  NodeName :: string
  Labels :: "string list"

record CrdFilter =
  NameSuffix :: string

record ('cc, 'cid) TestTarget =
  PodsUnderTest :: "Pod list"
  ContainerConfigList :: "'cc list"
  Operators :: "Operator list"
  DeploymentsUnderTest :: "Deployment list"
  Nodes :: "string \<rightharpoonup> Node"
  ExcludeContainersFromConnectivityTests :: "'cid list"

text \<open>The raw resources the cluster queries return.  Only the fields this package
  reads are kept; \<open>'c\<close> is the type of a container entry of a pod spec, of which only
  the number is read.\<close>

record ObjectMeta =
  MetaNamespace :: string
  MetaName :: string

record 'c PodSpec =
  SpecServiceAccount :: string
  Containers :: "'c list"

record 'c PodResource =
  Metadata :: ObjectMeta
  Spec :: "'c PodSpec"

record CSVResource =
  CsvMetadata :: ObjectMeta

record DeploymentResource =
  GetName :: string
  GetNamespace :: string
  GetReplicas :: int

record TestConfigure =
  TestName :: string

record ConfiguredTestCases =
  OperatorTest :: "TestConfigure list"

text \<open>One constructor for each logging statement of the package, with the values the
  message is formatted from.\<close>

datatype logmsg =
    WarnQueryByLabel Label error
  | WarnExcludeContainers error
  | WarnOperatorsByLabel error
  | ErrorNodeList error
  | ErrorDeploymentList string error
  | WarnPodTests string string error
  | WarnOperatorTests string string error
  | WarnSubscriptionName string error
  | ErrorLoadConfiguredTestFile
  | InfoGotAllTests "string list"
  | ErrorClusterCrd

text \<open>
  The collaborators whose code lies outside the two source files are parameters: the
  constants of \<open>configsections\<close> and of the package's other files, the label queries,
  the annotation reader of a resource (\<open>GetAnnotationValue\<close>, which decodes the JSON
  value of one annotation into a string list or returns an error), the global test
  configuration, the node-names test (\<open>nodenames.NewNodeNames\<close> for one role label,
  run through \<open>tnf.NewTest\<close>, then \<open>GetNodeNames\<close>), the generic command handler and
  \<open>json.Unmarshal\<close> into a \<open>[]string\<close>.  A query is a function of its arguments: the
  cluster does not change during one call.
\<close>

record ('c, 'cc, 'cid) env =
  MasterLabel :: string
  WorkerLabel :: string
  tnfLabelPrefix :: string
  anyLabelValue :: string
  buildAnnotationName :: "string \<Rightarrow> string"
  GetPodsByLabel :: "Label \<Rightarrow> string \<Rightarrow> error + 'c PodResource list"
  getContainerIdentifiersByLabel :: "Label \<Rightarrow> string \<Rightarrow> 'cid list \<times> error option"
  GetCSVsByLabel :: "string \<Rightarrow> string \<Rightarrow> string \<Rightarrow> error + CSVResource list"
  GetTargetDeploymentsByNamespace :: "string \<Rightarrow> Label \<Rightarrow> error + DeploymentResource list"
  buildContainersFromPodResource :: "'c PodResource \<Rightarrow> 'cc list"
  PodGetAnnotationValue :: "'c PodResource \<Rightarrow> string \<Rightarrow> error + string list"
  CSVGetAnnotationValue :: "CSVResource \<Rightarrow> string \<Rightarrow> error + string list"
  GetConfiguredPodTests :: "string list"
  LoadConfiguredTestFile :: "error + ConfiguredTestCases"
  RunNodeNames :: "string \<Rightarrow> error + string list"
  RunGenericCommand :: "string \<Rightarrow> abort + string list"
  jsonUnmarshal :: "string \<Rightarrow> error + string list"

section \<open>Constants\<close>

definition operatorLabelName :: string where
  "operatorLabelName = ''operator''"

definition skipConnectivityTestsLabel :: string where
  "skipConnectivityTestsLabel = ''skip_connectivity_tests''"

definition ocGetClusterCrdNamesCommand :: string where
  "ocGetClusterCrdNamesCommand =
     ''kubectl get crd -o json | jq '' @ [CHR 0x27] @ ''[.items[].metadata.name]'' @ [CHR 0x27]"

definition operatorTestsAnnotationName :: "('c, 'cc, 'cid) env \<Rightarrow> string" where
  "operatorTestsAnnotationName e = buildAnnotationName e ''operator_tests''"

definition subscriptionNameAnnotationName :: "('c, 'cc, 'cid) env \<Rightarrow> string" where
  "subscriptionNameAnnotationName e = buildAnnotationName e ''subscription_name''"

definition podTestsAnnotationName :: "('c, 'cc, 'cid) env \<Rightarrow> string" where
  "podTestsAnnotationName e = buildAnnotationName e ''host_resource_tests''"

section \<open>GetNodesList\<close>

text \<open>The loop over the master query's names (lines 96 to 101): every name is stored
  with the master label alone, overwriting an earlier entry of the same name.\<close>

primrec masterLoop :: "string \<Rightarrow> string list \<Rightarrow> (string \<rightharpoonup> Node) \<Rightarrow> (string \<rightharpoonup> Node)" where
  "masterLoop ml [] nodes = nodes"
| "masterLoop ml (n # ns) nodes =
     masterLoop ml ns (nodes(n \<mapsto> \<lparr>NodeName = n, Labels = [ml]\<rparr>))"

text \<open>The loop over the worker query's names (lines 110 to 121): a name already in
  the map gets the worker label appended to its labels, a new name gets a fresh entry.\<close>

primrec workerLoop :: "string \<Rightarrow> string list \<Rightarrow> (string \<rightharpoonup> Node) \<Rightarrow> (string \<rightharpoonup> Node)" where
  "workerLoop wl [] nodes = nodes"
| "workerLoop wl (n # ns) nodes =
     workerLoop wl ns
       (case nodes n of
          Some node \<Rightarrow> nodes(n \<mapsto> node\<lparr>Labels := Labels node @ [wl]\<rparr>)
        | None \<Rightarrow> nodes(n \<mapsto> \<lparr>NodeName = n, Labels = [wl]\<rparr>))"

text \<open>An error of the master query logs and returns at once (line 93), before the
  worker query is built; an error of the worker query logs and falls through to the
  final return.\<close>

definition GetNodesList :: "('c, 'cc, 'cid) env \<Rightarrow> logmsg list \<times> (string \<rightharpoonup> Node)" where
  "GetNodesList e =
     (case RunNodeNames e (MasterLabel e) of
        Inl err \<Rightarrow> ([ErrorNodeList err], Map.empty)
      | Inr nodeNames \<Rightarrow>
          (let nodes = masterLoop (MasterLabel e) nodeNames Map.empty in
           case RunNodeNames e (WorkerLabel e) of
             Inl err \<Rightarrow> ([ErrorNodeList err], nodes)
           | Inr workerNames \<Rightarrow> ([], workerLoop (WorkerLabel e) workerNames nodes)))"

section \<open>Entity builders\<close>

text \<open>\<open>buildPodUnderTest\<close> (lines 149 to 164) copies four fields and takes the tests
  from the annotation, or from the configured pod tests when the annotation reader
  returns an error.  It has no failing path of its own.\<close>

definition buildPodUnderTest :: "('c, 'cc, 'cid) env \<Rightarrow> 'c PodResource \<Rightarrow> logmsg list \<times> Pod" where
  "buildPodUnderTest e pr =
     (let podUnderTest = \<lparr>PodNamespace = MetaNamespace (Metadata pr),
                          PodName = MetaName (Metadata pr),
                          ServiceAccount = SpecServiceAccount (Spec pr),
                          ContainerCount = int (length (Containers (Spec pr))),
                          PodTests = []\<rparr> in
      case PodGetAnnotationValue e pr (podTestsAnnotationName e) of
        Inl err \<Rightarrow>
          ([WarnPodTests (PodNamespace podUnderTest) (PodName podUnderTest) err],
           podUnderTest\<lparr>PodTests := GetConfiguredPodTests e\<rparr>)
      | Inr tests \<Rightarrow> ([], podUnderTest\<lparr>PodTests := tests\<rparr>))"

text \<open>\<open>getConfiguredOperatorTests\<close> (lines 193 to 204).\<close>

definition getConfiguredOperatorTests :: "('c, 'cc, 'cid) env \<Rightarrow> logmsg list \<times> string list" where
  "getConfiguredOperatorTests e =
     (case LoadConfiguredTestFile e of
        Inl err \<Rightarrow> ([ErrorLoadConfiguredTestFile], [])
      | Inr configuredTests \<Rightarrow>
          (let opTests = map TestName (OperatorTest configuredTests) in
           ([InfoGotAllTests opTests], opTests)))"

text \<open>\<open>buildOperatorFromCSVResource\<close> (lines 167 to 189).  Line 186 reads
  \<open>subscriptionName[0]\<close> with no test of the length: on an empty slice Go panics with
  an index out of range.\<close>

definition buildOperatorFromCSVResource ::
  "('c, 'cc, 'cid) env \<Rightarrow> CSVResource \<Rightarrow> abort + (logmsg list \<times> Operator)" where
  "buildOperatorFromCSVResource e csv =
     (let op0 = \<lparr>OpName = MetaName (CsvMetadata csv),
                 OpNamespace = MetaNamespace (CsvMetadata csv),
                 OpTests = [], SubscriptionName = []\<rparr>;
          (lg1, op1) =
            (case CSVGetAnnotationValue e csv (operatorTestsAnnotationName e) of
               Inl err \<Rightarrow>
                 (let (lgc, opTests) = getConfiguredOperatorTests e in
                  (WarnOperatorTests (OpNamespace op0) (OpName op0) err # lgc,
                   op0\<lparr>OpTests := opTests\<rparr>))
             | Inr tests \<Rightarrow> ([], op0\<lparr>OpTests := tests\<rparr>))
      in case CSVGetAnnotationValue e csv (subscriptionNameAnnotationName e) of
           Inl err \<Rightarrow> Inr (lg1 @ [WarnSubscriptionName (MetaName (CsvMetadata csv)) err], op1)
         | Inr subscriptionName \<Rightarrow>
             (case subscriptionName of
                [] \<Rightarrow> Inl IndexOutOfRange
              | s # rest \<Rightarrow> Inr (lg1, op1\<lparr>SubscriptionName := s\<rparr>)))"

section \<open>FindTestDeployments\<close>

primrec deploymentItems :: "DeploymentResource list \<Rightarrow> Deployment list \<Rightarrow> Deployment list" where
  "deploymentItems [] deployments = deployments"
| "deploymentItems (deploymentResource # rest) deployments =
     deploymentItems rest
       (deployments @ [\<lparr>DepName = GetName deploymentResource,
                        DepNamespace = GetNamespace deploymentResource,
                        Replicas = GetReplicas deploymentResource\<rparr>])"

primrec deploymentLabels ::
  "('c, 'cc, 'cid) env \<Rightarrow> string \<Rightarrow> Label list \<Rightarrow> logmsg list \<times> Deployment list
     \<Rightarrow> logmsg list \<times> Deployment list" where
  "deploymentLabels e namespace [] s = s"
| "deploymentLabels e namespace (label # rest) s =
     deploymentLabels e namespace rest
       (case GetTargetDeploymentsByNamespace e namespace label of
          Inl err \<Rightarrow> (fst s @ [ErrorDeploymentList namespace err], snd s)
        | Inr items \<Rightarrow> (fst s, deploymentItems items (snd s)))"

text \<open>The \<open>target\<close> argument is not read (lines 128 to 146).\<close>

definition FindTestDeployments ::
  "('c, 'cc, 'cid) env \<Rightarrow> Label list \<Rightarrow> ('cc, 'cid) TestTarget \<Rightarrow> string
     \<Rightarrow> logmsg list \<times> Deployment list" where
  "FindTestDeployments e targetLabels target namespace =
     deploymentLabels e namespace targetLabels ([], [])"

section \<open>FindTestTarget\<close>

text \<open>The inner loop of lines 54 to 57 and the loop over the labels of lines 51 to 61.\<close>

primrec podItems ::
  "('c, 'cc, 'cid) env \<Rightarrow> 'c PodResource list \<Rightarrow> logmsg list \<times> ('cc, 'cid) TestTarget
     \<Rightarrow> logmsg list \<times> ('cc, 'cid) TestTarget" where
  "podItems e [] s = s"
| "podItems e (pr # rest) s =
     podItems e rest
       (let (lgp, pod) = buildPodUnderTest e pr; target = snd s in
        (fst s @ lgp,
         target\<lparr>PodsUnderTest := PodsUnderTest target @ [pod],
                ContainerConfigList :=
                  ContainerConfigList target @ buildContainersFromPodResource e pr\<rparr>))"

primrec podLabels ::
  "('c, 'cc, 'cid) env \<Rightarrow> string \<Rightarrow> Label list \<Rightarrow> logmsg list \<times> ('cc, 'cid) TestTarget
     \<Rightarrow> logmsg list \<times> ('cc, 'cid) TestTarget" where
  "podLabels e namespace [] s = s"
| "podLabels e namespace (l # rest) s =
     podLabels e namespace rest
       (case GetPodsByLabel e l namespace of
          Inr pods \<Rightarrow> podItems e pods s
        | Inl err \<Rightarrow> (fst s @ [WarnQueryByLabel l err], snd s))"

text \<open>The loop of lines 72 to 74; a panic of the builder leaves the loop and the
  function.\<close>

primrec operatorItems ::
  "('c, 'cc, 'cid) env \<Rightarrow> CSVResource list \<Rightarrow> logmsg list \<times> ('cc, 'cid) TestTarget
     \<Rightarrow> abort + (logmsg list \<times> ('cc, 'cid) TestTarget)" where
  "operatorItems e [] s = Inr s"
| "operatorItems e (csv # rest) s =
     (case buildOperatorFromCSVResource e csv of
        Inl a \<Rightarrow> Inl a
      | Inr (lgo, op) \<Rightarrow>
          operatorItems e rest
            (fst s @ lgo, (snd s)\<lparr>Operators := Operators (snd s) @ [op]\<rparr>))"

text \<open>\<open>FindTestTarget\<close> (lines 49 to 81) mutates the catalog it is given; the model
  returns the log and the updated catalog.  The exclusion list is assigned whatever the
  identifier query returned, before its error is looked at (line 64).\<close>

definition FindTestTarget ::
  "('c, 'cc, 'cid) env \<Rightarrow> Label list \<Rightarrow> ('cc, 'cid) TestTarget \<Rightarrow> string
     \<Rightarrow> abort + (logmsg list \<times> ('cc, 'cid) TestTarget)" where
  "FindTestTarget e labels target namespace =
     (let (lg1, t1) = podLabels e namespace labels ([], target);
          (identifiers, err) =
             getContainerIdentifiersByLabel e
               \<lparr>Prefix = tnfLabelPrefix e, LabelName = skipConnectivityTestsLabel,
                Value = anyLabelValue e\<rparr> namespace;
          t2 = t1\<lparr>ExcludeContainersFromConnectivityTests := identifiers\<rparr>;
          lg2 = lg1 @ (case err of Some x \<Rightarrow> [WarnExcludeContainers x] | None \<Rightarrow> [])
      in case (case GetCSVsByLabel e operatorLabelName (anyLabelValue e) namespace of
                 Inr csvs \<Rightarrow> operatorItems e csvs (lg2, t2)
               | Inl x \<Rightarrow> Inr (lg2 @ [WarnOperatorsByLabel x], t2)) of
           Inl a \<Rightarrow> Inl a
         | Inr (lg3, t3) \<Rightarrow>
             (let (lgd, deployments) = FindTestDeployments e labels t3 namespace;
                  t4 = t3\<lparr>DeploymentsUnderTest := DeploymentsUnderTest t3 @ deployments\<rparr>;
                  (lgn, nodes) = GetNodesList e
              in Inr (lg3 @ lgd @ lgn, t4\<lparr>Nodes := nodes\<rparr>)))"

section \<open>CRD names\<close>

text \<open>\<open>utils.ExecuteCommand\<close> escapes the double quotes of the command, hands it to
  the generic command handler, expects exactly one match and returns it.  Each gomega
  expectation that does not hold ends the call.\<close>

definition escapeQuotes :: "string \<Rightarrow> string" where
  "escapeQuotes command =
     concat (map (\<lambda>c. if c = CHR 0x22 then [CHR 0x5C, CHR 0x22] else [c]) command)"

definition ExecuteCommand :: "('c, 'cc, 'cid) env \<Rightarrow> string \<Rightarrow> abort + string" where
  "ExecuteCommand e command =
     (case RunGenericCommand e (escapeQuotes command) of
        Inl a \<Rightarrow> Inl a
      | Inr matches \<Rightarrow>
          (case matches of
             [m] \<Rightarrow> Inr m
           | _ \<Rightarrow> Inl AssertionFailed))"

text \<open>\<open>strings.HasSuffix\<close>, as the Go library defines it.\<close>

definition HasSuffix :: "string \<Rightarrow> string \<Rightarrow> bool" where
  "HasSuffix s suf \<longleftrightarrow>
     length s \<ge> length suf \<and> drop (length s - length suf) s = suf"

definition getClusterCrdNames :: "('c, 'cc, 'cid) env \<Rightarrow> abort + (error + string list)" where
  "getClusterCrdNames e =
     (case ExecuteCommand e ocGetClusterCrdNamesCommand of
        Inl a \<Rightarrow> Inl a
      | Inr out \<Rightarrow>
          Inr (case jsonUnmarshal e out of
                 Inl err \<Rightarrow> Inl err
               | Inr crdNamesList \<Rightarrow> Inr crdNamesList))"

text \<open>The inner loop of lines 231 to 236: the name is appended at the first filter
  whose suffix it ends with, and \<open>break\<close> leaves the loop.\<close>

primrec crdFilterLoop :: "string \<Rightarrow> CrdFilter list \<Rightarrow> string list \<Rightarrow> string list" where
  "crdFilterLoop crdName [] targetCrdNames = targetCrdNames"
| "crdFilterLoop crdName (crdFilter # rest) targetCrdNames =
     (if HasSuffix crdName (NameSuffix crdFilter) then targetCrdNames @ [crdName]
      else crdFilterLoop crdName rest targetCrdNames)"

primrec crdNameLoop :: "string list \<Rightarrow> CrdFilter list \<Rightarrow> string list \<Rightarrow> string list" where
  "crdNameLoop [] crdFilters targetCrdNames = targetCrdNames"
| "crdNameLoop (crdName # rest) crdFilters targetCrdNames =
     crdNameLoop rest crdFilters (crdFilterLoop crdName crdFilters targetCrdNames)"

definition FindTestCrdNames ::
  "('c, 'cc, 'cid) env \<Rightarrow> CrdFilter list \<Rightarrow> abort + (logmsg list \<times> string list)" where
  "FindTestCrdNames e crdFilters =
     (case getClusterCrdNames e of
        Inl a \<Rightarrow> Inl a
      | Inr (Inl err) \<Rightarrow> Inr ([ErrorClusterCrd], [])
      | Inr (Inr clusterCrdNames) \<Rightarrow> Inr ([], crdNameLoop clusterCrdNames crdFilters []))"

section \<open>A concrete cluster\<close>

text \<open>A cluster with no resources at all, in which every query succeeds with an empty
  answer and no resource carries an annotation.  The concrete clusters below change
  one collaborator of it at a time.\<close>

definition quietCluster :: "(unit, string, string) env" where
  "quietCluster =
     \<lparr>MasterLabel = ''node-role.kubernetes.io/master'',
      WorkerLabel = ''node-role.kubernetes.io/worker'',
      tnfLabelPrefix = ''test-network-function.com'',
      anyLabelValue = [],
      buildAnnotationName = (\<lambda>name. ''test-network-function.com/'' @ name),
      GetPodsByLabel = (\<lambda>l namespace. Inr []),
      getContainerIdentifiersByLabel = (\<lambda>l namespace. ([], None)),
      GetCSVsByLabel = (\<lambda>name v namespace. Inr []),
      GetTargetDeploymentsByNamespace = (\<lambda>namespace l. Inr []),
      buildContainersFromPodResource = (\<lambda>pr. map (\<lambda>u. MetaName (Metadata pr)) (Containers (Spec pr))),
      PodGetAnnotationValue = (\<lambda>pr key. Inl (GoError ''failed to find annotation'')),
      CSVGetAnnotationValue = (\<lambda>csv key. Inl (GoError ''failed to find annotation'')),
      GetConfiguredPodTests = [''container'', ''multus''],
      LoadConfiguredTestFile = Inr \<lparr>OperatorTest = [\<lparr>TestName = ''OPERATOR_STATUS''\<rparr>]\<rparr>,
      RunNodeNames = (\<lambda>l. Inr []),
      RunGenericCommand = (\<lambda>command. Inr [''[]'']),
      jsonUnmarshal = (\<lambda>out. Inr [])\<rparr>"

definition emptyTarget :: "('cc, 'cid) TestTarget" where
  "emptyTarget =
     \<lparr>PodsUnderTest = [], ContainerConfigList = [], Operators = [],
      DeploymentsUnderTest = [], Nodes = Map.empty,
      ExcludeContainersFromConnectivityTests = []\<rparr>"

definition targetLabel :: Label where
  "targetLabel = \<lparr>Prefix = ''test-network-function.com'', LabelName = ''generic'', Value = ''target''\<rparr>"

definition podA :: "unit PodResource" where
  "podA = \<lparr>Metadata = \<lparr>MetaNamespace = ''tnf'', MetaName = ''pod-a''\<rparr>,
           Spec = \<lparr>SpecServiceAccount = ''default'', Containers = [(), ()]\<rparr>\<rparr>"

definition podB :: "unit PodResource" where
  "podB = \<lparr>Metadata = \<lparr>MetaNamespace = ''tnf'', MetaName = ''pod-b''\<rparr>,
           Spec = \<lparr>SpecServiceAccount = ''default'', Containers = [()]\<rparr>\<rparr>"

definition csvA :: CSVResource where
  "csvA = \<lparr>CsvMetadata = \<lparr>MetaNamespace = ''tnf'', MetaName = ''etcd.v1''\<rparr>\<rparr>"

text \<open>The master query fails; the worker query, if it is run, answers \<open>w1\<close>.\<close>

definition masterDownCluster :: "(unit, string, string) env" where
  "masterDownCluster =
     quietCluster\<lparr>RunNodeNames :=
       (\<lambda>l. if l = ''node-role.kubernetes.io/master'' then Inl (GoError ''timeout'')
            else Inr [''w1''])\<rparr>"

text \<open>The worker query fails; the master query answers \<open>m1\<close>.\<close>

definition workerDownCluster :: "(unit, string, string) env" where
  "workerDownCluster =
     quietCluster\<lparr>RunNodeNames :=
       (\<lambda>l. if l = ''node-role.kubernetes.io/master'' then Inr [''m1'']
            else Inl (GoError ''timeout''))\<rparr>"

text \<open>\<open>node-a\<close> is a master, \<open>node-b\<close> a master and a worker, \<open>node-c\<close> a worker.\<close>

definition mixedNodesCluster :: "(unit, string, string) env" where
  "mixedNodesCluster =
     quietCluster\<lparr>RunNodeNames :=
       (\<lambda>l. if l = ''node-role.kubernetes.io/master'' then Inr [''node-a'', ''node-b'']
            else Inr [''node-b'', ''node-c''])\<rparr>"

text \<open>\<open>pod-a\<close> carries the tests annotation \<open>["t1","t2"]\<close>, \<open>pod-b\<close> carries none.\<close>

definition annotatedPodCluster :: "(unit, string, string) env" where
  "annotatedPodCluster =
     quietCluster\<lparr>PodGetAnnotationValue :=
       (\<lambda>pr key. if MetaName (Metadata pr) = ''pod-a''
                    \<and> key = ''test-network-function.com/host_resource_tests''
                 then Inr [''t1'', ''t2'']
                 else Inl (GoError ''failed to find annotation''))\<rparr>"

text \<open>\<open>pod-a\<close> carries the tests annotation \<open>[]\<close>, which decodes to the empty list.\<close>

definition emptyTestsCluster :: "(unit, string, string) env" where
  "emptyTestsCluster =
     quietCluster\<lparr>PodGetAnnotationValue :=
       (\<lambda>pr key. if key = ''test-network-function.com/host_resource_tests''
                 then Inr [] else Inl (GoError ''failed to find annotation''))\<rparr>"

text \<open>The operator query answers one CSV, whose subscription annotation is \<open>[]\<close>.\<close>

definition emptySubscriptionCluster :: "(unit, string, string) env" where
  "emptySubscriptionCluster =
     quietCluster\<lparr>GetCSVsByLabel := (\<lambda>name v namespace. Inr [csvA]),
                  CSVGetAnnotationValue :=
       (\<lambda>csv key. if key = ''test-network-function.com/subscription_name''
                  then Inr [] else Inl (GoError ''failed to find annotation''))\<rparr>"

text \<open>The operator query answers one CSV, whose subscription annotation is
  \<open>["etcd"]\<close>.\<close>

definition subscribedCluster :: "(unit, string, string) env" where
  "subscribedCluster =
     quietCluster\<lparr>GetCSVsByLabel := (\<lambda>name v namespace. Inr [csvA]),
                  CSVGetAnnotationValue :=
       (\<lambda>csv key. if key = ''test-network-function.com/subscription_name''
                  then Inr [''etcd''] else Inl (GoError ''failed to find annotation''))\<rparr>"

text \<open>The CRD listing of the specification's example, and a listing that is no JSON.\<close>

definition crdCluster :: "(unit, string, string) env" where
  "crdCluster =
     quietCluster\<lparr>jsonUnmarshal :=
       (\<lambda>out. Inr [''foo.acme.io'', ''bar.example.com'', ''baz.acme.io''])\<rparr>"

definition badCrdCluster :: "(unit, string, string) env" where
  "badCrdCluster =
     quietCluster\<lparr>RunGenericCommand := (\<lambda>command. Inr [''error: no server'']),
                  jsonUnmarshal := (\<lambda>out. Inl (GoError ''invalid character''))\<rparr>"


text \<open>A cluster with two pods and one deployment under the target label, one operator
  and one node of each role.  Queries for any other label fail.\<close>

definition depA :: DeploymentResource where
  "depA = \<lparr>GetName = ''dep-a'', GetNamespace = ''tnf'', GetReplicas = 2\<rparr>"

definition busyCluster :: "(unit, string, string) env" where
  "busyCluster =
     quietCluster\<lparr>
       GetPodsByLabel :=
         (\<lambda>l namespace. if l = targetLabel then Inr [podA, podB]
                         else Inl (GoError ''no resources found'')),
       getContainerIdentifiersByLabel := (\<lambda>l namespace. ([''tnf/pod-b/c0''], None)),
       GetCSVsByLabel := (\<lambda>name v namespace. Inr [csvA]),
       GetTargetDeploymentsByNamespace :=
         (\<lambda>namespace l. if l = targetLabel then Inr [depA]
                         else Inl (GoError ''no resources found'')),
       RunNodeNames :=
         (\<lambda>l. if l = ''node-role.kubernetes.io/master'' then Inr [''m1''] else Inr [''w1''])\<rparr>"

text \<open>The same cluster with a failing master query.\<close>

definition busyMasterDownCluster :: "(unit, string, string) env" where
  "busyMasterDownCluster =
     busyCluster\<lparr>RunNodeNames :=
       (\<lambda>l. if l = ''node-role.kubernetes.io/master'' then Inl (GoError ''timeout'')
            else Inr [''w1''])\<rparr>"

text \<open>The same cluster with an operator whose subscription annotation is \<open>[]\<close>.\<close>

definition busyEmptySubscriptionCluster :: "(unit, string, string) env" where
  "busyEmptySubscriptionCluster =
     busyCluster\<lparr>CSVGetAnnotationValue :=
       (\<lambda>csv key. if key = ''test-network-function.com/subscription_name''
                  then Inr [] else Inl (GoError ''failed to find annotation''))\<rparr>"

text \<open>A second run against the same cluster: the collaborators answer the queries of
  the run as before, and differently where the run does not ask.\<close>

definition busyClusterAgain :: "(unit, string, string) env" where
  "busyClusterAgain =
     busyCluster\<lparr>
       GetPodsByLabel :=
         (\<lambda>l namespace. if l = targetLabel then Inr [podA, podB] else Inr []),
       GetTargetDeploymentsByNamespace :=
         (\<lambda>namespace l. if l = targetLabel then Inr [depA] else Inr []),
       RunNodeNames :=
         (\<lambda>l. if l = ''node-role.kubernetes.io/master'' then Inr [''m1'']
              else if l = ''node-role.kubernetes.io/worker'' then Inr [''w1'']
              else Inl (GoError ''unknown role''))\<rparr>"

section \<open>Two runs against an unchanged cluster\<close>

text \<open>Two runs see the same cluster when the collaborators give both the same answer
  to every query the run issues for the given labels and namespace: the constants, the
  pod and deployment queries of each label, the annotations and container entries of
  the pods returned, the identifier query, the operator query and the annotations of
  the CSVs returned, the test configuration, the two node queries, and the CRD listing
  with its decoding.\<close>

definition sameResponses ::
  "('c, 'cc, 'cid) env \<Rightarrow> ('c, 'cc, 'cid) env \<Rightarrow> Label list \<Rightarrow> string \<Rightarrow> bool" where
  "sameResponses e1 e2 labels namespace \<longleftrightarrow>
     MasterLabel e1 = MasterLabel e2 \<and> WorkerLabel e1 = WorkerLabel e2 \<and>
     tnfLabelPrefix e1 = tnfLabelPrefix e2 \<and> anyLabelValue e1 = anyLabelValue e2 \<and>
     podTestsAnnotationName e1 = podTestsAnnotationName e2 \<and>
     operatorTestsAnnotationName e1 = operatorTestsAnnotationName e2 \<and>
     subscriptionNameAnnotationName e1 = subscriptionNameAnnotationName e2 \<and>
     GetConfiguredPodTests e1 = GetConfiguredPodTests e2 \<and>
     LoadConfiguredTestFile e1 = LoadConfiguredTestFile e2 \<and>
     (\<forall>l\<in>set labels.
        GetPodsByLabel e1 l namespace = GetPodsByLabel e2 l namespace \<and>
        GetTargetDeploymentsByNamespace e1 namespace l =
          GetTargetDeploymentsByNamespace e2 namespace l \<and>
        (case GetPodsByLabel e1 l namespace of
           Inl err \<Rightarrow> True
         | Inr pods \<Rightarrow>
             \<forall>pr\<in>set pods.
               PodGetAnnotationValue e1 pr (podTestsAnnotationName e1) =
                 PodGetAnnotationValue e2 pr (podTestsAnnotationName e1) \<and>
               buildContainersFromPodResource e1 pr = buildContainersFromPodResource e2 pr)) \<and>
     getContainerIdentifiersByLabel e1
         \<lparr>Prefix = tnfLabelPrefix e1, LabelName = skipConnectivityTestsLabel,
          Value = anyLabelValue e1\<rparr> namespace =
       getContainerIdentifiersByLabel e2
         \<lparr>Prefix = tnfLabelPrefix e1, LabelName = skipConnectivityTestsLabel,
          Value = anyLabelValue e1\<rparr> namespace \<and>
     GetCSVsByLabel e1 operatorLabelName (anyLabelValue e1) namespace =
       GetCSVsByLabel e2 operatorLabelName (anyLabelValue e1) namespace \<and>
     (case GetCSVsByLabel e1 operatorLabelName (anyLabelValue e1) namespace of
        Inl err \<Rightarrow> True
      | Inr csvs \<Rightarrow>
          \<forall>csv\<in>set csvs.
            CSVGetAnnotationValue e1 csv (operatorTestsAnnotationName e1) =
              CSVGetAnnotationValue e2 csv (operatorTestsAnnotationName e1) \<and>
            CSVGetAnnotationValue e1 csv (subscriptionNameAnnotationName e1) =
              CSVGetAnnotationValue e2 csv (subscriptionNameAnnotationName e1)) \<and>
     RunNodeNames e1 (MasterLabel e1) = RunNodeNames e2 (MasterLabel e1) \<and>
     RunNodeNames e1 (WorkerLabel e1) = RunNodeNames e2 (WorkerLabel e1) \<and>
     ExecuteCommand e1 ocGetClusterCrdNamesCommand = ExecuteCommand e2 ocGetClusterCrdNamesCommand \<and>
     (case ExecuteCommand e1 ocGetClusterCrdNamesCommand of
        Inl a \<Rightarrow> True
      | Inr out \<Rightarrow> jsonUnmarshal e1 out = jsonUnmarshal e2 out)"

text \<open>Equality of two catalogs up to the order of their entities.\<close>

definition sameCatalog :: "('cc, 'cid) TestTarget \<Rightarrow> ('cc, 'cid) TestTarget \<Rightarrow> bool" where
  "sameCatalog t1 t2 \<longleftrightarrow>
     mset (PodsUnderTest t1) = mset (PodsUnderTest t2) \<and>
     mset (ContainerConfigList t1) = mset (ContainerConfigList t2) \<and>
     mset (Operators t1) = mset (Operators t2) \<and>
     mset (DeploymentsUnderTest t1) = mset (DeploymentsUnderTest t2) \<and>
     Nodes t1 = Nodes t2 \<and>
     mset (ExcludeContainersFromConnectivityTests t1) =
       mset (ExcludeContainersFromConnectivityTests t2)"


text \<open>Two runs end alike when both panic in the same way or both return catalogs that
  are equal up to the order of their entities.\<close>

definition sameOutcome ::
  "abort + (logmsg list \<times> ('cc, 'cid) TestTarget)
     \<Rightarrow> abort + (logmsg list \<times> ('cc, 'cid) TestTarget) \<Rightarrow> bool" where
  "sameOutcome r1 r2 =
     (case r1 of
        Inl a \<Rightarrow> r2 = Inl a
      | Inr p1 \<Rightarrow> (case r2 of Inl b \<Rightarrow> False | Inr p2 \<Rightarrow> sameCatalog (snd p1) (snd p2)))"

definition otherLabel :: Label where
  "otherLabel = \<lparr>Prefix = ''test-network-function.com'', LabelName = ''generic'', Value = ''other''\<rparr>"

section \<open>Properties of the loops\<close>

lemma masterLoop_eq:
  "masterLoop ml ms nodes n =
     (if n \<in> set ms then Some \<lparr>NodeName = n, Labels = [ml]\<rparr> else nodes n)"
  by (induction ms arbitrary: nodes) auto

lemma workerLoop_eq:
  "workerLoop wl ws nodes n =
     (if n \<in> set ws then
        (case nodes n of
           Some node \<Rightarrow> Some (node\<lparr>Labels := Labels node @ replicate (count_list ws n) wl\<rparr>)
         | None \<Rightarrow> Some \<lparr>NodeName = n, Labels = replicate (count_list ws n) wl\<rparr>)
      else nodes n)"
proof (induction ws arbitrary: nodes)
  case Nil
  show ?case by simp
next
  case (Cons w ws)
  show ?case
    by (cases "nodes n") (auto simp: Cons.IH replicate_append_same split: option.splits)
qed

lemma GetNodesList_both:
  assumes "RunNodeNames e (MasterLabel e) = Inr ms" "RunNodeNames e (WorkerLabel e) = Inr ws"
  shows "GetNodesList e =
     ([], \<lambda>n. if n \<in> set ms \<union> set ws
               then Some \<lparr>NodeName = n,
                          Labels = (if n \<in> set ms then [MasterLabel e] else [])
                                   @ replicate (count_list ws n) (WorkerLabel e)\<rparr>
               else None)"
  using assms by (auto simp: GetNodesList_def Let_def workerLoop_eq masterLoop_eq fun_eq_iff)

lemma deploymentItems_eq:
  "deploymentItems items ds =
     ds @ map (\<lambda>r. \<lparr>DepName = GetName r, DepNamespace = GetNamespace r, Replicas = GetReplicas r\<rparr>) items"
  by (induction items arbitrary: ds) simp_all

lemma deploymentLabels_eq:
  "deploymentLabels e namespace labels s =
     (fst s @ concat (map (\<lambda>l. case GetTargetDeploymentsByNamespace e namespace l of
                                Inl err \<Rightarrow> [ErrorDeploymentList namespace err] | Inr items \<Rightarrow> []) labels),
      snd s @ concat (map (\<lambda>l. case GetTargetDeploymentsByNamespace e namespace l of
                                Inl err \<Rightarrow> [] | Inr items \<Rightarrow> deploymentItems items []) labels))"
proof (induction labels arbitrary: s)
  case Nil
  show ?case by simp
next
  case (Cons l labels)
  show ?case
    by (cases "GetTargetDeploymentsByNamespace e namespace l")
       (simp_all add: Cons.IH deploymentItems_eq)
qed

lemma podItems_eq:
  "podItems e items s =
     (fst s @ concat (map (\<lambda>pr. fst (buildPodUnderTest e pr)) items),
      (snd s)\<lparr>PodsUnderTest := PodsUnderTest (snd s) @ map (\<lambda>pr. snd (buildPodUnderTest e pr)) items,
              ContainerConfigList := ContainerConfigList (snd s)
                 @ concat (map (buildContainersFromPodResource e) items)\<rparr>)"
proof (induction items arbitrary: s)
  case Nil
  show ?case by simp
next
  case (Cons pr items)
  show ?case by (simp add: Cons.IH split_beta Let_def)
qed

lemma podLabels_eq:
  "podLabels e namespace labels s =
     (fst s @ concat (map (\<lambda>l. case GetPodsByLabel e l namespace of
                                Inl err \<Rightarrow> [WarnQueryByLabel l err]
                              | Inr pods \<Rightarrow> concat (map (\<lambda>pr. fst (buildPodUnderTest e pr)) pods)) labels),
      (snd s)\<lparr>PodsUnderTest := PodsUnderTest (snd s)
                 @ concat (map (\<lambda>l. case GetPodsByLabel e l namespace of
                                Inl err \<Rightarrow> []
                              | Inr pods \<Rightarrow> map (\<lambda>pr. snd (buildPodUnderTest e pr)) pods) labels),
              ContainerConfigList := ContainerConfigList (snd s)
                 @ concat (map (\<lambda>l. case GetPodsByLabel e l namespace of
                                Inl err \<Rightarrow> []
                              | Inr pods \<Rightarrow> concat (map (buildContainersFromPodResource e) pods)) labels)\<rparr>)"
proof (induction labels arbitrary: s)
  case Nil
  show ?case by simp
next
  case (Cons l labels)
  show ?case
    by (cases "GetPodsByLabel e l namespace") (simp_all add: Cons.IH podItems_eq)
qed

lemma buildOperator_abort_iff:
  "buildOperatorFromCSVResource e csv = Inl a \<longleftrightarrow>
     a = IndexOutOfRange \<and> CSVGetAnnotationValue e csv (subscriptionNameAnnotationName e) = Inr []"
  by (auto simp: buildOperatorFromCSVResource_def Let_def split_beta split: sum.splits list.splits)

lemma operatorItems_ok:
  "\<forall>csv\<in>set csvs. CSVGetAnnotationValue e csv (subscriptionNameAnnotationName e) \<noteq> Inr [] \<Longrightarrow>
   operatorItems e csvs s =
     Inr (fst s @ concat (map (\<lambda>csv. fst (projr (buildOperatorFromCSVResource e csv))) csvs),
          (snd s)\<lparr>Operators := Operators (snd s)
             @ map (\<lambda>csv. snd (projr (buildOperatorFromCSVResource e csv))) csvs\<rparr>)"
proof (induction csvs arbitrary: s)
  case Nil
  show ?case by simp
next
  case (Cons csv csvs)
  from Cons.prems have "\<And>a. buildOperatorFromCSVResource e csv \<noteq> Inl a"
    by (simp add: buildOperator_abort_iff)
  then obtain lg op where b: "buildOperatorFromCSVResource e csv = Inr (lg, op)"
    by (cases "buildOperatorFromCSVResource e csv") auto
  from Cons.prems show ?case by (simp add: b Cons.IH)
qed

lemma operatorItems_abort:
  "operatorItems e csvs s = Inl a \<longleftrightarrow>
     a = IndexOutOfRange \<and>
     (\<exists>csv\<in>set csvs. CSVGetAnnotationValue e csv (subscriptionNameAnnotationName e) = Inr [])"
proof (induction csvs arbitrary: s)
  case Nil
  show ?case by simp
next
  case (Cons csv csvs)
  show ?case
  proof (cases "buildOperatorFromCSVResource e csv")
    case (Inl b)
    then show ?thesis using buildOperator_abort_iff [of e csv b] by auto
  next
    case (Inr p)
    then have "CSVGetAnnotationValue e csv (subscriptionNameAnnotationName e) \<noteq> Inr []"
      using buildOperator_abort_iff [of e csv IndexOutOfRange] by auto
    then show ?thesis using Inr by (cases p) (simp add: Cons.IH)
  qed
qed


lemma podItems_cong:
  assumes "\<forall>pr\<in>set items. buildPodUnderTest e1 pr = buildPodUnderTest e2 pr \<and>
             buildContainersFromPodResource e1 pr = buildContainersFromPodResource e2 pr"
  shows "podItems e1 items s = podItems e2 items s"
  using assms by (induction items arbitrary: s) simp_all

lemma podLabels_cong:
  assumes "\<forall>l\<in>set labels. GetPodsByLabel e1 l namespace = GetPodsByLabel e2 l namespace"
    and "\<forall>l\<in>set labels. \<forall>pods s. GetPodsByLabel e2 l namespace = Inr pods \<longrightarrow>
            podItems e1 pods s = podItems e2 pods s"
  shows "podLabels e1 namespace labels s = podLabels e2 namespace labels s"
  using assms
proof (induction labels arbitrary: s)
  case Nil
  show ?case by simp
next
  case (Cons l labels)
  have q: "GetPodsByLabel e1 l namespace = GetPodsByLabel e2 l namespace"
    using Cons.prems(1) by simp
  have ih: "podLabels e1 namespace labels s' = podLabels e2 namespace labels s'" for s'
    using Cons.prems by (intro Cons.IH) simp_all
  show ?case
  proof (cases "GetPodsByLabel e2 l namespace")
    case (Inl err)
    then show ?thesis by (simp add: q ih)
  next
    case (Inr pods)
    from Cons.prems(2) have "\<forall>pods s. GetPodsByLabel e2 l namespace = Inr pods \<longrightarrow>
            podItems e1 pods s = podItems e2 pods s"
      by (rule bspec) simp
    with Inr have "podItems e1 pods s = podItems e2 pods s" by blast
    then show ?thesis by (simp add: q Inr ih)
  qed
qed

lemma deploymentLabels_cong:
  assumes "\<forall>l\<in>set labels. GetTargetDeploymentsByNamespace e1 namespace l =
             GetTargetDeploymentsByNamespace e2 namespace l"
  shows "deploymentLabels e1 namespace labels s = deploymentLabels e2 namespace labels s"
  using assms by (induction labels arbitrary: s) simp_all

lemma operatorItems_cong:
  assumes "\<forall>csv\<in>set csvs. buildOperatorFromCSVResource e1 csv = buildOperatorFromCSVResource e2 csv"
  shows "operatorItems e1 csvs s = operatorItems e2 csvs s"
  using assms by (induction csvs arbitrary: s) (simp_all split: sum.splits)

lemma buildPodUnderTest_cong:
  assumes "podTestsAnnotationName e1 = podTestsAnnotationName e2"
    "GetConfiguredPodTests e1 = GetConfiguredPodTests e2"
    "PodGetAnnotationValue e1 pr (podTestsAnnotationName e1) =
       PodGetAnnotationValue e2 pr (podTestsAnnotationName e1)"
  shows "buildPodUnderTest e1 pr = buildPodUnderTest e2 pr"
  using assms by (simp add: buildPodUnderTest_def cong: sum.case_cong)

lemma buildOperator_cong:
  assumes "operatorTestsAnnotationName e1 = operatorTestsAnnotationName e2"
    "subscriptionNameAnnotationName e1 = subscriptionNameAnnotationName e2"
    "LoadConfiguredTestFile e1 = LoadConfiguredTestFile e2"
    "CSVGetAnnotationValue e1 csv (operatorTestsAnnotationName e1) =
       CSVGetAnnotationValue e2 csv (operatorTestsAnnotationName e1)"
    "CSVGetAnnotationValue e1 csv (subscriptionNameAnnotationName e1) =
       CSVGetAnnotationValue e2 csv (subscriptionNameAnnotationName e1)"
  shows "buildOperatorFromCSVResource e1 csv = buildOperatorFromCSVResource e2 csv"
  using assms
  by (simp add: buildOperatorFromCSVResource_def getConfiguredOperatorTests_def
           cong: sum.case_cong)

lemma GetNodesList_cong:
  assumes "MasterLabel e1 = MasterLabel e2" "WorkerLabel e1 = WorkerLabel e2"
    "RunNodeNames e1 (MasterLabel e1) = RunNodeNames e2 (MasterLabel e1)"
    "RunNodeNames e1 (WorkerLabel e1) = RunNodeNames e2 (WorkerLabel e1)"
  shows "GetNodesList e1 = GetNodesList e2"
  using assms by (simp add: GetNodesList_def cong: sum.case_cong)

lemma FindTestCrdNames_cong:
  assumes "ExecuteCommand e1 ocGetClusterCrdNamesCommand = ExecuteCommand e2 ocGetClusterCrdNamesCommand"
    "case ExecuteCommand e1 ocGetClusterCrdNamesCommand of
        Inl a \<Rightarrow> True
      | Inr out \<Rightarrow> jsonUnmarshal e1 out = jsonUnmarshal e2 out"
  shows "FindTestCrdNames e1 fs = FindTestCrdNames e2 fs"
proof (cases "ExecuteCommand e2 ocGetClusterCrdNamesCommand")
  case (Inl a)
  with assms show ?thesis by (simp add: FindTestCrdNames_def getClusterCrdNames_def)
next
  case (Inr out)
  with assms have "jsonUnmarshal e1 out = jsonUnmarshal e2 out" by simp
  with Inr assms(1) show ?thesis by (simp add: FindTestCrdNames_def getClusterCrdNames_def)
qed

lemma sameResponsesD:
  assumes "sameResponses e1 e2 labels namespace"
  shows "MasterLabel e1 = MasterLabel e2" and "WorkerLabel e1 = WorkerLabel e2"
    and "tnfLabelPrefix e1 = tnfLabelPrefix e2" and "anyLabelValue e1 = anyLabelValue e2"
    and "podTestsAnnotationName e1 = podTestsAnnotationName e2"
    and "operatorTestsAnnotationName e1 = operatorTestsAnnotationName e2"
    and "subscriptionNameAnnotationName e1 = subscriptionNameAnnotationName e2"
    and "GetConfiguredPodTests e1 = GetConfiguredPodTests e2"
    and "LoadConfiguredTestFile e1 = LoadConfiguredTestFile e2"
    and "\<forall>l\<in>set labels.
        GetPodsByLabel e1 l namespace = GetPodsByLabel e2 l namespace \<and>
        GetTargetDeploymentsByNamespace e1 namespace l =
          GetTargetDeploymentsByNamespace e2 namespace l \<and>
        (case GetPodsByLabel e1 l namespace of
           Inl err \<Rightarrow> True
         | Inr pods \<Rightarrow>
             \<forall>pr\<in>set pods.
               PodGetAnnotationValue e1 pr (podTestsAnnotationName e1) =
                 PodGetAnnotationValue e2 pr (podTestsAnnotationName e1) \<and>
               buildContainersFromPodResource e1 pr = buildContainersFromPodResource e2 pr)"
    and "getContainerIdentifiersByLabel e1
         \<lparr>Prefix = tnfLabelPrefix e1, LabelName = skipConnectivityTestsLabel,
          Value = anyLabelValue e1\<rparr> namespace =
       getContainerIdentifiersByLabel e2
         \<lparr>Prefix = tnfLabelPrefix e1, LabelName = skipConnectivityTestsLabel,
          Value = anyLabelValue e1\<rparr> namespace"
    and "GetCSVsByLabel e1 operatorLabelName (anyLabelValue e1) namespace =
       GetCSVsByLabel e2 operatorLabelName (anyLabelValue e1) namespace"
    and "case GetCSVsByLabel e1 operatorLabelName (anyLabelValue e1) namespace of
        Inl err \<Rightarrow> True
      | Inr csvs \<Rightarrow>
          \<forall>csv\<in>set csvs.
            CSVGetAnnotationValue e1 csv (operatorTestsAnnotationName e1) =
              CSVGetAnnotationValue e2 csv (operatorTestsAnnotationName e1) \<and>
            CSVGetAnnotationValue e1 csv (subscriptionNameAnnotationName e1) =
              CSVGetAnnotationValue e2 csv (subscriptionNameAnnotationName e1)"
    and "RunNodeNames e1 (MasterLabel e1) = RunNodeNames e2 (MasterLabel e1)"
    and "RunNodeNames e1 (WorkerLabel e1) = RunNodeNames e2 (WorkerLabel e1)"
    and "ExecuteCommand e1 ocGetClusterCrdNamesCommand = ExecuteCommand e2 ocGetClusterCrdNamesCommand"
    and "case ExecuteCommand e1 ocGetClusterCrdNamesCommand of
        Inl a \<Rightarrow> True
      | Inr out \<Rightarrow> jsonUnmarshal e1 out = jsonUnmarshal e2 out"
  using assms unfolding sameResponses_def by - (elim conjE, assumption)+

lemma FindTestTarget_cong:
  assumes "sameResponses e1 e2 labels namespace"
  shows "FindTestTarget e1 labels target namespace = FindTestTarget e2 labels target namespace"
proof -
  note d = sameResponsesD [OF assms]
  note names = d(5,6,7) and conf = d(8,9)
  have podq: "\<forall>l\<in>set labels. GetPodsByLabel e1 l namespace = GetPodsByLabel e2 l namespace"
    using d(10) by blast
  have pods: "podLabels e2 namespace labels s = podLabels e1 namespace labels s" for s
  proof (rule sym, rule podLabels_cong [OF podq], intro ballI allI impI)
    fix l pods s'
    assume l: "l \<in> set labels" and r: "GetPodsByLabel e2 l namespace = Inr pods"
    from podq l r have r1: "GetPodsByLabel e1 l namespace = Inr pods" by simp
    from d(10) l have "case GetPodsByLabel e1 l namespace of
           Inl err \<Rightarrow> True
         | Inr pods \<Rightarrow>
             \<forall>pr\<in>set pods.
               PodGetAnnotationValue e1 pr (podTestsAnnotationName e1) =
                 PodGetAnnotationValue e2 pr (podTestsAnnotationName e1) \<and>
               buildContainersFromPodResource e1 pr = buildContainersFromPodResource e2 pr"
      by blast
    then have a: "\<forall>pr\<in>set pods.
               PodGetAnnotationValue e1 pr (podTestsAnnotationName e1) =
                 PodGetAnnotationValue e2 pr (podTestsAnnotationName e1) \<and>
               buildContainersFromPodResource e1 pr = buildContainersFromPodResource e2 pr"
      unfolding r1 by simp
    show "podItems e1 pods s' = podItems e2 pods s'"
    proof (rule podItems_cong, rule ballI)
      fix pr assume "pr \<in> set pods"
      with a have p: "PodGetAnnotationValue e1 pr (podTestsAnnotationName e1) =
                 PodGetAnnotationValue e2 pr (podTestsAnnotationName e1)"
        and c: "buildContainersFromPodResource e1 pr = buildContainersFromPodResource e2 pr"
        by blast+
      have "buildPodUnderTest e1 pr = buildPodUnderTest e2 pr"
        by (rule buildPodUnderTest_cong [OF names(1) conf(1) p])
      with c show "buildPodUnderTest e1 pr = buildPodUnderTest e2 pr \<and>
             buildContainersFromPodResource e1 pr = buildContainersFromPodResource e2 pr"
        by (rule conjI [rotated])
    qed
  qed
  have depq: "\<forall>l\<in>set labels. GetTargetDeploymentsByNamespace e1 namespace l =
             GetTargetDeploymentsByNamespace e2 namespace l"
    using d(10) by blast
  have deps: "FindTestDeployments e2 labels t namespace = FindTestDeployments e1 labels t namespace" for t
    unfolding FindTestDeployments_def
    by (rule sym, rule deploymentLabels_cong [OF depq])
  have nodes: "GetNodesList e2 = GetNodesList e1"
    by (rule sym, rule GetNodesList_cong [OF d(1,2,14,15)])
  note cst = d(3) [symmetric] d(4) [symmetric]
  note ids = d(11) [symmetric] and csvq = d(12) [symmetric]
  have ops: "operatorItems e2 csvs s = operatorItems e1 csvs s"
    if r: "GetCSVsByLabel e1 operatorLabelName (anyLabelValue e1) namespace = Inr csvs" for csvs s
  proof (rule sym, rule operatorItems_cong, rule ballI)
    fix csv assume m: "csv \<in> set csvs"
    from d(13) have "\<forall>csv\<in>set csvs.
            CSVGetAnnotationValue e1 csv (operatorTestsAnnotationName e1) =
              CSVGetAnnotationValue e2 csv (operatorTestsAnnotationName e1) \<and>
            CSVGetAnnotationValue e1 csv (subscriptionNameAnnotationName e1) =
              CSVGetAnnotationValue e2 csv (subscriptionNameAnnotationName e1)"
      unfolding r by simp
    with m have a: "CSVGetAnnotationValue e1 csv (operatorTestsAnnotationName e1) =
              CSVGetAnnotationValue e2 csv (operatorTestsAnnotationName e1)"
       "CSVGetAnnotationValue e1 csv (subscriptionNameAnnotationName e1) =
              CSVGetAnnotationValue e2 csv (subscriptionNameAnnotationName e1)"
      by blast+
    show "buildOperatorFromCSVResource e1 csv = buildOperatorFromCSVResource e2 csv"
      by (rule buildOperator_cong [OF names(2,3) conf(2) a])
  qed
  have "FindTestTarget e2 labels target namespace = FindTestTarget e1 labels target namespace"
  proof (cases "GetCSVsByLabel e1 operatorLabelName (anyLabelValue e1) namespace")
    case (Inl x)
    show ?thesis
      unfolding FindTestTarget_def pods deps nodes cst ids csvq Inl sum.case ..
  next
    case (Inr csvs)
    show ?thesis
      unfolding FindTestTarget_def pods deps nodes cst ids csvq Inr sum.case ops [OF Inr] ..
  qed
  then show ?thesis by (rule sym)
qed



lemma HasSuffix_suffix: "HasSuffix s suf \<longleftrightarrow> suffix suf s"
  unfolding HasSuffix_def
proof
  assume a: "length suf \<le> length s \<and> drop (length s - length suf) s = suf"
  then have "s = take (length s - length suf) s @ suf" by (metis append_take_drop_id)
  then show "suffix suf s" by (metis suffixI)
next
  assume "suffix suf s"
  then obtain p where "s = p @ suf" by (auto simp: suffix_def)
  then show "length suf \<le> length s \<and> drop (length s - length suf) s = suf" by simp
qed

lemma crdFilterLoop_eq:
  "crdFilterLoop crdName crdFilters acc =
     (if \<exists>f\<in>set crdFilters. HasSuffix crdName (NameSuffix f) then acc @ [crdName] else acc)"
  by (induction crdFilters) simp_all

lemma crdNameLoop_eq:
  "crdNameLoop names crdFilters acc =
     acc @ filter (\<lambda>n. \<exists>f\<in>set crdFilters. HasSuffix n (NameSuffix f)) names"
  by (induction names arbitrary: acc) (simp_all add: crdFilterLoop_eq)

lemma operatorItems_Inr_D:
  assumes "operatorItems e csvs s = Inr p" "csv \<in> set csvs"
  shows "CSVGetAnnotationValue e csv (subscriptionNameAnnotationName e) \<noteq> Inr []"
proof
  assume "CSVGetAnnotationValue e csv (subscriptionNameAnnotationName e) = Inr []"
  with assms(2) have "operatorItems e csvs s = Inl IndexOutOfRange"
    unfolding operatorItems_abort by blast
  with assms(1) show False by simp
qed

lemma FindTestTarget_abort_iff:
  "FindTestTarget e labels target namespace = Inl a \<longleftrightarrow>
     a = IndexOutOfRange \<and>
     (\<exists>csvs. GetCSVsByLabel e operatorLabelName (anyLabelValue e) namespace = Inr csvs \<and>
        (\<exists>csv\<in>set csvs.
           CSVGetAnnotationValue e csv (subscriptionNameAnnotationName e) = Inr []))"
proof (cases "GetCSVsByLabel e operatorLabelName (anyLabelValue e) namespace")
  case (Inl x)
  then show ?thesis by (simp add: FindTestTarget_def split_beta Let_def)
next
  case (Inr csvs)
  then show ?thesis
    by (auto simp: FindTestTarget_def split_beta Let_def operatorItems_abort
             split: sum.splits dest: operatorItems_Inr_D)
qed


text \<open>
  Claim C1.  When the master query fails and the worker query succeeds, the node map
  should hold the worker-tagged nodes.  On the cluster \<open>masterDownCluster\<close> the worker
  query answers \<open>w1\<close>, yet \<open>GetNodesList\<close> logs the master error and returns the empty
  map: the \<open>return\<close> of line 93 leaves the function before the worker query is built.
  The other branch does what this one misses: when the worker query fails the master
  entries are kept (\<open>GetNodesList_worker_failure\<close>).
\<close>

theorem GetNodesList_master_failure:
  "RunNodeNames masterDownCluster (WorkerLabel masterDownCluster) = Inr [''w1''] \<and>
   GetNodesList masterDownCluster = ([ErrorNodeList (GoError ''timeout'')], Map.empty)"
  by (simp add: GetNodesList_def masterDownCluster_def quietCluster_def)

lemma GetNodesList_worker_failure:
  "GetNodesList workerDownCluster =
     ([ErrorNodeList (GoError ''timeout'')],
      [''m1'' \<mapsto> \<lparr>NodeName = ''m1'', Labels = [''node-role.kubernetes.io/master'']\<rparr>])"
  by (simp add: GetNodesList_def workerDownCluster_def quietCluster_def)

text \<open>
  Claim C3.  When the tests annotation of a pod resolves to a list, the built pod carries
  exactly that list and nothing is logged (the fallback is not consulted); when the
  annotation reader returns an error, the pod carries the configured pod tests and one
  warning is logged.  \<open>buildPodUnderTest\<close> has no failing result.
\<close>

theorem buildPodUnderTest_tests:
  "(PodGetAnnotationValue e pr (podTestsAnnotationName e) = Inr tests \<longrightarrow>
      buildPodUnderTest e pr =
        ([], \<lparr>PodNamespace = MetaNamespace (Metadata pr), PodName = MetaName (Metadata pr),
              ServiceAccount = SpecServiceAccount (Spec pr),
              ContainerCount = int (length (Containers (Spec pr))), PodTests = tests\<rparr>)) \<and>
   (PodGetAnnotationValue e pr (podTestsAnnotationName e) = Inl err \<longrightarrow>
      buildPodUnderTest e pr =
        ([WarnPodTests (MetaNamespace (Metadata pr)) (MetaName (Metadata pr)) err],
         \<lparr>PodNamespace = MetaNamespace (Metadata pr), PodName = MetaName (Metadata pr),
          ServiceAccount = SpecServiceAccount (Spec pr),
          ContainerCount = int (length (Containers (Spec pr))),
          PodTests = GetConfiguredPodTests e\<rparr>))"
  by (simp add: buildPodUnderTest_def)

theorem buildPodUnderTest_tests_witness:
  "PodGetAnnotationValue annotatedPodCluster podA (podTestsAnnotationName annotatedPodCluster)
     = Inr [''t1'', ''t2''] \<and>
   buildPodUnderTest annotatedPodCluster podA =
     ([], \<lparr>PodNamespace = ''tnf'', PodName = ''pod-a'', ServiceAccount = ''default'',
           ContainerCount = 2, PodTests = [''t1'', ''t2'']\<rparr>) \<and>
   PodGetAnnotationValue annotatedPodCluster podB (podTestsAnnotationName annotatedPodCluster)
     = Inl (GoError ''failed to find annotation'') \<and>
   buildPodUnderTest annotatedPodCluster podB =
     ([WarnPodTests ''tnf'' ''pod-b'' (GoError ''failed to find annotation'')],
      \<lparr>PodNamespace = ''tnf'', PodName = ''pod-b'', ServiceAccount = ''default'',
       ContainerCount = 1, PodTests = [''container'', ''multus'']\<rparr>)"
proof -
  have a: "PodGetAnnotationValue annotatedPodCluster podA
             (podTestsAnnotationName annotatedPodCluster) = Inr [''t1'', ''t2'']"
    by (simp add: annotatedPodCluster_def quietCluster_def podTestsAnnotationName_def podA_def)
  have b: "PodGetAnnotationValue annotatedPodCluster podB
             (podTestsAnnotationName annotatedPodCluster) = Inl (GoError ''failed to find annotation'')"
    by (simp add: annotatedPodCluster_def quietCluster_def podTestsAnnotationName_def podB_def)
  have c: "GetConfiguredPodTests annotatedPodCluster = [''container'', ''multus'']"
    by (simp add: annotatedPodCluster_def quietCluster_def)
  from buildPodUnderTest_tests [of annotatedPodCluster podA "[''t1'', ''t2'']"] a
  have "buildPodUnderTest annotatedPodCluster podA =
     ([], \<lparr>PodNamespace = ''tnf'', PodName = ''pod-a'', ServiceAccount = ''default'',
           ContainerCount = 2, PodTests = [''t1'', ''t2'']\<rparr>)"
    by (simp add: podA_def)
  moreover from buildPodUnderTest_tests [of annotatedPodCluster podB _ "GoError ''failed to find annotation''"] b c
  have "buildPodUnderTest annotatedPodCluster podB =
     ([WarnPodTests ''tnf'' ''pod-b'' (GoError ''failed to find annotation'')],
      \<lparr>PodNamespace = ''tnf'', PodName = ''pod-b'', ServiceAccount = ''default'',
       ContainerCount = 1, PodTests = [''container'', ''multus'']\<rparr>)"
    by (simp add: podB_def)
  ultimately show ?thesis using a b by blast
qed

text \<open>
  Claim C4 as stated fails: on \<open>emptyTestsCluster\<close> the configured pod tests are not
  empty, the annotation of \<open>pod-a\<close> decodes to the empty list without an error, and the
  built pod has no tests, since the fallback is taken on an error only.
\<close>

theorem buildPodUnderTest_empty_tests_counterexample:
  "\<not> (GetConfiguredPodTests emptyTestsCluster \<noteq> [] \<longrightarrow>
       PodTests (snd (buildPodUnderTest emptyTestsCluster podA)) \<noteq> [])"
  by (simp add: buildPodUnderTest_def emptyTestsCluster_def quietCluster_def
        podTestsAnnotationName_def)

text \<open>
  Claim C4, amended.  The tests of a built pod are empty exactly when the annotation
  resolves to the empty list, or the annotation reader returns an error and the
  configured pod tests are empty.
\<close>

theorem buildPodUnderTest_tests_empty_iff:
  "PodTests (snd (buildPodUnderTest e pr)) = [] \<longleftrightarrow>
     PodGetAnnotationValue e pr (podTestsAnnotationName e) = Inr [] \<or>
     ((\<exists>err. PodGetAnnotationValue e pr (podTestsAnnotationName e) = Inl err) \<and>
      GetConfiguredPodTests e = [])"
  by (cases "PodGetAnnotationValue e pr (podTestsAnnotationName e)")
     (simp_all add: buildPodUnderTest_def)

theorem buildPodUnderTest_tests_empty_iff_witness:
  "PodGetAnnotationValue emptyTestsCluster podA (podTestsAnnotationName emptyTestsCluster) = Inr [] \<and>
   PodTests (snd (buildPodUnderTest emptyTestsCluster podA)) = [] \<and>
   PodGetAnnotationValue annotatedPodCluster podB (podTestsAnnotationName annotatedPodCluster)
     = Inl (GoError ''failed to find annotation'') \<and>
   GetConfiguredPodTests annotatedPodCluster \<noteq> [] \<and>
   PodTests (snd (buildPodUnderTest annotatedPodCluster podB)) \<noteq> []"
proof -
  have a: "PodGetAnnotationValue emptyTestsCluster podA
             (podTestsAnnotationName emptyTestsCluster) = Inr []"
    by (simp add: emptyTestsCluster_def quietCluster_def podTestsAnnotationName_def)
  have b: "PodGetAnnotationValue annotatedPodCluster podB
             (podTestsAnnotationName annotatedPodCluster) = Inl (GoError ''failed to find annotation'')"
    by (simp add: annotatedPodCluster_def quietCluster_def podTestsAnnotationName_def podB_def)
  have c: "GetConfiguredPodTests annotatedPodCluster \<noteq> []"
    by (simp add: annotatedPodCluster_def quietCluster_def)
  from a have "PodTests (snd (buildPodUnderTest emptyTestsCluster podA)) = []"
    unfolding buildPodUnderTest_tests_empty_iff by (rule disjI1)
  moreover from b c have "PodTests (snd (buildPodUnderTest annotatedPodCluster podB)) \<noteq> []"
    unfolding buildPodUnderTest_tests_empty_iff by simp
  ultimately show ?thesis using a b c by blast
qed

lemma count_list_distinct: "distinct xs \<Longrightarrow> x \<in> set xs \<Longrightarrow> count_list xs x = 1"
  by (induction xs) auto

lemma count_list_pos: "x \<in> set xs \<Longrightarrow> 0 < count_list xs x"
  by (induction xs) auto

text \<open>
  Claim C5.  When both role queries succeed, the keys of the node map are the names of
  the two answers and no others; a name of the master answer alone has exactly the master
  label; a name of the worker answer alone has the worker role only; a name of both has
  one entry with both roles.  The labels are a list: a name that the worker answer
  repeats gets the worker label once for each occurrence, so the lists are exactly
  \<open>[worker]\<close> and \<open>[master, worker]\<close> when the worker answer has no repetition.
\<close>

theorem GetNodesList_merge:
  assumes "RunNodeNames e (MasterLabel e) = Inr ms"
    and "RunNodeNames e (WorkerLabel e) = Inr ws"
  shows "dom (snd (GetNodesList e)) = set ms \<union> set ws \<and>
    (\<forall>n\<in>set ms - set ws.
       snd (GetNodesList e) n = Some \<lparr>NodeName = n, Labels = [MasterLabel e]\<rparr>) \<and>
    (\<forall>n\<in>set ws - set ms.
       \<exists>node. snd (GetNodesList e) n = Some node \<and> NodeName node = n \<and>
              set (Labels node) = {WorkerLabel e} \<and>
              (distinct ws \<longrightarrow> Labels node = [WorkerLabel e])) \<and>
    (\<forall>n\<in>set ms \<inter> set ws.
       \<exists>node. snd (GetNodesList e) n = Some node \<and> NodeName node = n \<and>
              set (Labels node) = {MasterLabel e, WorkerLabel e} \<and>
              (distinct ws \<longrightarrow> Labels node = [MasterLabel e, WorkerLabel e]))"
proof -
  let ?nodes = "snd (GetNodesList e)"
  have eq: "?nodes n = (if n \<in> set ms \<union> set ws
               then Some \<lparr>NodeName = n,
                          Labels = (if n \<in> set ms then [MasterLabel e] else [])
                                   @ replicate (count_list ws n) (WorkerLabel e)\<rparr>
               else None)" for n
    by (simp add: GetNodesList_both [OF assms])
  have d: "dom ?nodes = set ms \<union> set ws"
    by (auto simp: dom_def eq)
  have m: "\<forall>n\<in>set ms - set ws. ?nodes n = Some \<lparr>NodeName = n, Labels = [MasterLabel e]\<rparr>"
    by (simp add: eq)
  have w: "\<forall>n\<in>set ws - set ms.
       \<exists>node. ?nodes n = Some node \<and> NodeName node = n \<and>
              set (Labels node) = {WorkerLabel e} \<and>
              (distinct ws \<longrightarrow> Labels node = [WorkerLabel e])"
    using count_list_pos [of _ ws] by (auto simp: eq count_list_distinct)
  have b: "\<forall>n\<in>set ms \<inter> set ws.
       \<exists>node. ?nodes n = Some node \<and> NodeName node = n \<and>
              set (Labels node) = {MasterLabel e, WorkerLabel e} \<and>
              (distinct ws \<longrightarrow> Labels node = [MasterLabel e, WorkerLabel e])"
    using count_list_pos [of _ ws] by (auto simp: eq count_list_distinct)
  from d m w b show ?thesis by blast
qed

theorem GetNodesList_merge_witness:
  "RunNodeNames mixedNodesCluster (MasterLabel mixedNodesCluster) = Inr [''node-a'', ''node-b''] \<and>
   RunNodeNames mixedNodesCluster (WorkerLabel mixedNodesCluster) = Inr [''node-b'', ''node-c''] \<and>
   dom (snd (GetNodesList mixedNodesCluster)) = {''node-a'', ''node-b'', ''node-c''} \<and>
   snd (GetNodesList mixedNodesCluster) ''node-a'' =
     Some \<lparr>NodeName = ''node-a'', Labels = [''node-role.kubernetes.io/master'']\<rparr> \<and>
   (\<exists>node. snd (GetNodesList mixedNodesCluster) ''node-b'' = Some node \<and>
      Labels node = [''node-role.kubernetes.io/master'', ''node-role.kubernetes.io/worker''])"
proof -
  have m: "RunNodeNames mixedNodesCluster (MasterLabel mixedNodesCluster) = Inr [''node-a'', ''node-b'']"
    by (simp add: mixedNodesCluster_def quietCluster_def)
  have w: "RunNodeNames mixedNodesCluster (WorkerLabel mixedNodesCluster) = Inr [''node-b'', ''node-c'']"
    by (simp add: mixedNodesCluster_def quietCluster_def)
  have l: "MasterLabel mixedNodesCluster = ''node-role.kubernetes.io/master''"
    "WorkerLabel mixedNodesCluster = ''node-role.kubernetes.io/worker''"
    by (simp_all add: mixedNodesCluster_def quietCluster_def)
  note r = GetNodesList_merge [OF m w, unfolded l]
  from r have "dom (snd (GetNodesList mixedNodesCluster)) = {''node-a'', ''node-b'', ''node-c''}"
    by auto
  moreover from r have "snd (GetNodesList mixedNodesCluster) ''node-a'' =
     Some \<lparr>NodeName = ''node-a'', Labels = [''node-role.kubernetes.io/master'']\<rparr>"
    by simp
  moreover from r have "\<exists>node. snd (GetNodesList mixedNodesCluster) ''node-b'' = Some node \<and>
      Labels node = [''node-role.kubernetes.io/master'', ''node-role.kubernetes.io/worker'']"
    by auto
  ultimately show ?thesis using m w by blast
qed

text \<open>
  Claim C6.  \<open>FindTestCrdNames\<close> returns the cluster CRD names that end with the suffix
  of some filter, in the order of the cluster list; a name occurs in the result as often
  as in the cluster list when a filter matches it, however many filters do, and not at
  all otherwise.
\<close>

theorem FindTestCrdNames_filter:
  assumes "getClusterCrdNames e = Inr (Inr clusterCrdNames)"
  shows "FindTestCrdNames e crdFilters =
           Inr ([], filter (\<lambda>n. \<exists>f\<in>set crdFilters. HasSuffix n (NameSuffix f)) clusterCrdNames) \<and>
         (\<forall>out n. FindTestCrdNames e crdFilters = Inr ([], out) \<longrightarrow>
            count_list out n =
              (if \<exists>f\<in>set crdFilters. HasSuffix n (NameSuffix f)
               then count_list clusterCrdNames n else 0))"
proof -
  have c: "count_list (filter P xs) n = (if P n then count_list xs n else 0)"
    for P :: "string \<Rightarrow> bool" and xs n
    by (induction xs) auto
  have r: "FindTestCrdNames e crdFilters =
           Inr ([], filter (\<lambda>n. \<exists>f\<in>set crdFilters. HasSuffix n (NameSuffix f)) clusterCrdNames)"
    using assms by (simp add: FindTestCrdNames_def crdNameLoop_eq)
  show ?thesis unfolding r by (simp add: c)
qed

theorem FindTestCrdNames_filter_witness:
  "getClusterCrdNames crdCluster = Inr (Inr [''foo.acme.io'', ''bar.example.com'', ''baz.acme.io'']) \<and>
   FindTestCrdNames crdCluster [\<lparr>NameSuffix = ''acme.io''\<rparr>, \<lparr>NameSuffix = ''.io''\<rparr>] =
     Inr ([], [''foo.acme.io'', ''baz.acme.io''])"
proof -
  have g: "getClusterCrdNames crdCluster =
             Inr (Inr [''foo.acme.io'', ''bar.example.com'', ''baz.acme.io''])"
    by (simp add: getClusterCrdNames_def ExecuteCommand_def crdCluster_def quietCluster_def)
  from FindTestCrdNames_filter [OF g, of "[\<lparr>NameSuffix = ''acme.io''\<rparr>, \<lparr>NameSuffix = ''.io''\<rparr>]"]
  have "FindTestCrdNames crdCluster [\<lparr>NameSuffix = ''acme.io''\<rparr>, \<lparr>NameSuffix = ''.io''\<rparr>] =
     Inr ([], [''foo.acme.io'', ''baz.acme.io''])"
    by (simp add: HasSuffix_def)
  with g show ?thesis by blast
qed

text \<open>
  Claim C7.  When the listing command returns and its output does not decode as a JSON
  string array, \<open>FindTestCrdNames\<close> logs one error and returns the empty list; it does
  not fail.
\<close>

theorem FindTestCrdNames_decode_failure:
  assumes "ExecuteCommand e ocGetClusterCrdNamesCommand = Inr out"
    and "jsonUnmarshal e out = Inl err"
  shows "FindTestCrdNames e crdFilters = Inr ([ErrorClusterCrd], [])"
  using assms by (simp add: FindTestCrdNames_def getClusterCrdNames_def)

theorem FindTestCrdNames_decode_failure_witness:
  "ExecuteCommand badCrdCluster ocGetClusterCrdNamesCommand = Inr ''error: no server'' \<and>
   jsonUnmarshal badCrdCluster ''error: no server'' = Inl (GoError ''invalid character'') \<and>
   FindTestCrdNames badCrdCluster [\<lparr>NameSuffix = ''acme.io''\<rparr>] = Inr ([ErrorClusterCrd], [])"
proof -
  have x: "ExecuteCommand badCrdCluster ocGetClusterCrdNamesCommand = Inr ''error: no server''"
    by (simp add: ExecuteCommand_def badCrdCluster_def quietCluster_def)
  have j: "jsonUnmarshal badCrdCluster ''error: no server'' = Inl (GoError ''invalid character'')"
    by (simp add: badCrdCluster_def quietCluster_def)
  from FindTestCrdNames_decode_failure [OF x j] x j show ?thesis by blast
qed

lemma FindTestTarget_catalog:
  assumes "FindTestTarget e labels target namespace = Inr (lg, t)"
  shows "PodsUnderTest t = PodsUnderTest target @
           concat (map (\<lambda>l. case GetPodsByLabel e l namespace of
                                Inl err \<Rightarrow> []
                              | Inr pods \<Rightarrow> map (\<lambda>pr. snd (buildPodUnderTest e pr)) pods) labels)"
    and "ContainerConfigList t = ContainerConfigList target @
           concat (map (\<lambda>l. case GetPodsByLabel e l namespace of
                                Inl err \<Rightarrow> []
                              | Inr pods \<Rightarrow> concat (map (buildContainersFromPodResource e) pods)) labels)"
    and "ExcludeContainersFromConnectivityTests t =
           fst (getContainerIdentifiersByLabel e
                  \<lparr>Prefix = tnfLabelPrefix e, LabelName = skipConnectivityTestsLabel,
                   Value = anyLabelValue e\<rparr> namespace)"
    and "Operators t = Operators target @
           (case GetCSVsByLabel e operatorLabelName (anyLabelValue e) namespace of
              Inl err \<Rightarrow> []
            | Inr csvs \<Rightarrow> map (\<lambda>csv. snd (projr (buildOperatorFromCSVResource e csv))) csvs)"
    and "DeploymentsUnderTest t = DeploymentsUnderTest target @
           snd (FindTestDeployments e labels target namespace)"
    and "Nodes t = snd (GetNodesList e)"
proof -
  have "PodsUnderTest t = PodsUnderTest target @
           concat (map (\<lambda>l. case GetPodsByLabel e l namespace of
                                Inl err \<Rightarrow> []
                              | Inr pods \<Rightarrow> map (\<lambda>pr. snd (buildPodUnderTest e pr)) pods) labels) \<and>
     ContainerConfigList t = ContainerConfigList target @
           concat (map (\<lambda>l. case GetPodsByLabel e l namespace of
                                Inl err \<Rightarrow> []
                              | Inr pods \<Rightarrow> concat (map (buildContainersFromPodResource e) pods)) labels) \<and>
     ExcludeContainersFromConnectivityTests t =
           fst (getContainerIdentifiersByLabel e
                  \<lparr>Prefix = tnfLabelPrefix e, LabelName = skipConnectivityTestsLabel,
                   Value = anyLabelValue e\<rparr> namespace) \<and>
     Operators t = Operators target @
           (case GetCSVsByLabel e operatorLabelName (anyLabelValue e) namespace of
              Inl err \<Rightarrow> []
            | Inr csvs \<Rightarrow> map (\<lambda>csv. snd (projr (buildOperatorFromCSVResource e csv))) csvs) \<and>
     DeploymentsUnderTest t = DeploymentsUnderTest target @
           snd (FindTestDeployments e labels target namespace) \<and>
     Nodes t = snd (GetNodesList e)"
  proof (cases "GetCSVsByLabel e operatorLabelName (anyLabelValue e) namespace")
    case (Inl x)
    with assms show ?thesis
      by (auto simp: FindTestTarget_def split_beta Let_def podLabels_eq
            FindTestDeployments_def)
  next
    case (Inr csvs)
    have ok: "\<forall>csv\<in>set csvs.
               CSVGetAnnotationValue e csv (subscriptionNameAnnotationName e) \<noteq> Inr []"
      using FindTestTarget_abort_iff [of e labels target namespace IndexOutOfRange] assms Inr
      by auto
    from assms show ?thesis
      by (auto simp: FindTestTarget_def split_beta Let_def podLabels_eq Inr
            operatorItems_ok [OF ok]
            FindTestDeployments_def)
  qed
  then show "PodsUnderTest t = PodsUnderTest target @
           concat (map (\<lambda>l. case GetPodsByLabel e l namespace of
                                Inl err \<Rightarrow> []
                              | Inr pods \<Rightarrow> map (\<lambda>pr. snd (buildPodUnderTest e pr)) pods) labels)"
    and "ContainerConfigList t = ContainerConfigList target @
           concat (map (\<lambda>l. case GetPodsByLabel e l namespace of
                                Inl err \<Rightarrow> []
                              | Inr pods \<Rightarrow> concat (map (buildContainersFromPodResource e) pods)) labels)"
    and "ExcludeContainersFromConnectivityTests t =
           fst (getContainerIdentifiersByLabel e
                  \<lparr>Prefix = tnfLabelPrefix e, LabelName = skipConnectivityTestsLabel,
                   Value = anyLabelValue e\<rparr> namespace)"
    and "Operators t = Operators target @
           (case GetCSVsByLabel e operatorLabelName (anyLabelValue e) namespace of
              Inl err \<Rightarrow> []
            | Inr csvs \<Rightarrow> map (\<lambda>csv. snd (projr (buildOperatorFromCSVResource e csv))) csvs)"
    and "DeploymentsUnderTest t = DeploymentsUnderTest target @
           snd (FindTestDeployments e labels target namespace)"
    and "Nodes t = snd (GetNodesList e)"
    by blast+
qed

text \<open>
  Claim C8.  When the subscription annotation of a CSV does not resolve, the builder
  still returns the operator, with the empty subscription name and the warning as the
  last log entry, and the loop of \<open>FindTestTarget\<close> appends this operator to the
  catalog.
\<close>

theorem buildOperator_no_subscription:
  assumes "CSVGetAnnotationValue e csv (subscriptionNameAnnotationName e) = Inl err"
  shows "\<exists>lg tests.
     buildOperatorFromCSVResource e csv =
       Inr (lg @ [WarnSubscriptionName (MetaName (CsvMetadata csv)) err],
            \<lparr>OpName = MetaName (CsvMetadata csv), OpNamespace = MetaNamespace (CsvMetadata csv),
             OpTests = tests, SubscriptionName = ''''\<rparr>) \<and>
     (\<forall>s. operatorItems e [csv] s =
        Inr (fst s @ lg @ [WarnSubscriptionName (MetaName (CsvMetadata csv)) err],
             (snd s)\<lparr>Operators := Operators (snd s) @
               [\<lparr>OpName = MetaName (CsvMetadata csv), OpNamespace = MetaNamespace (CsvMetadata csv),
                 OpTests = tests, SubscriptionName = ''''\<rparr>]\<rparr>))"
proof (cases "CSVGetAnnotationValue e csv (operatorTestsAnnotationName e)")
  case (Inl x)
  with assms show ?thesis
    by (simp add: buildOperatorFromCSVResource_def split_beta Let_def)
next
  case (Inr tests)
  with assms show ?thesis
    by (simp add: buildOperatorFromCSVResource_def split_beta Let_def)
qed

theorem buildOperator_no_subscription_witness:
  "CSVGetAnnotationValue quietCluster csvA (subscriptionNameAnnotationName quietCluster)
     = Inl (GoError ''failed to find annotation'') \<and>
   (\<exists>lg tests.
      buildOperatorFromCSVResource quietCluster csvA =
        Inr (lg @ [WarnSubscriptionName ''etcd.v1'' (GoError ''failed to find annotation'')],
             \<lparr>OpName = ''etcd.v1'', OpNamespace = ''tnf'', OpTests = tests,
              SubscriptionName = ''''\<rparr>))"
proof -
  have a: "CSVGetAnnotationValue quietCluster csvA (subscriptionNameAnnotationName quietCluster)
     = Inl (GoError ''failed to find annotation'')"
    by (simp add: quietCluster_def)
  have m: "MetaName (CsvMetadata csvA) = ''etcd.v1''" "MetaNamespace (CsvMetadata csvA) = ''tnf''"
    by (simp_all add: csvA_def)
  from buildOperator_no_subscription [OF a, unfolded m] a show ?thesis by blast
qed

text \<open>
  Claim C10.  The builder reads element 0 of a resolved subscription list without a
  length test: a non-empty list gives its first element as the subscription name, the
  empty list has no element 0 and the builder panics, and this is the only way the
  builder can panic.
\<close>

theorem buildOperator_index_zero:
  "(CSVGetAnnotationValue e csv (subscriptionNameAnnotationName e) = Inr [] \<longrightarrow>
      buildOperatorFromCSVResource e csv = Inl IndexOutOfRange) \<and>
   (\<forall>subscriptionName.
      CSVGetAnnotationValue e csv (subscriptionNameAnnotationName e) = Inr subscriptionName \<longrightarrow>
      subscriptionName \<noteq> [] \<longrightarrow>
      (\<exists>lg op. buildOperatorFromCSVResource e csv = Inr (lg, op) \<and>
                SubscriptionName op = subscriptionName ! 0)) \<and>
   ((\<exists>a. buildOperatorFromCSVResource e csv = Inl a) \<longleftrightarrow>
      CSVGetAnnotationValue e csv (subscriptionNameAnnotationName e) = Inr [])"
proof (intro conjI allI impI)
  assume "CSVGetAnnotationValue e csv (subscriptionNameAnnotationName e) = Inr []"
  then show "buildOperatorFromCSVResource e csv = Inl IndexOutOfRange"
    by (simp add: buildOperator_abort_iff)
next
  fix subscriptionName
  assume a: "CSVGetAnnotationValue e csv (subscriptionNameAnnotationName e) = Inr subscriptionName"
    and n: "subscriptionName \<noteq> []"
  then obtain s rest where s: "subscriptionName = s # rest" by (cases subscriptionName) auto
  from a show "\<exists>lg op. buildOperatorFromCSVResource e csv = Inr (lg, op) \<and>
                SubscriptionName op = subscriptionName ! 0"
    unfolding s by (simp add: buildOperatorFromCSVResource_def split_beta Let_def)
next
  show "(\<exists>a. buildOperatorFromCSVResource e csv = Inl a) \<longleftrightarrow>
      CSVGetAnnotationValue e csv (subscriptionNameAnnotationName e) = Inr []"
    by (auto simp: buildOperator_abort_iff)
qed

theorem buildOperator_index_zero_witness:
  "CSVGetAnnotationValue emptySubscriptionCluster csvA
     (subscriptionNameAnnotationName emptySubscriptionCluster) = Inr [] \<and>
   buildOperatorFromCSVResource emptySubscriptionCluster csvA = Inl IndexOutOfRange \<and>
   CSVGetAnnotationValue subscribedCluster csvA
     (subscriptionNameAnnotationName subscribedCluster) = Inr [''etcd''] \<and>
   (\<exists>lg op. buildOperatorFromCSVResource subscribedCluster csvA = Inr (lg, op) \<and>
             SubscriptionName op = ''etcd'')"
proof -
  have a: "CSVGetAnnotationValue emptySubscriptionCluster csvA
     (subscriptionNameAnnotationName emptySubscriptionCluster) = Inr []"
    by (simp add: emptySubscriptionCluster_def quietCluster_def subscriptionNameAnnotationName_def)
  have b: "CSVGetAnnotationValue subscribedCluster csvA
     (subscriptionNameAnnotationName subscribedCluster) = Inr [''etcd'']"
    by (simp add: subscribedCluster_def quietCluster_def subscriptionNameAnnotationName_def)
  from buildOperator_index_zero [of emptySubscriptionCluster csvA] a
  have "buildOperatorFromCSVResource emptySubscriptionCluster csvA = Inl IndexOutOfRange"
    by blast
  moreover from buildOperator_index_zero [of subscribedCluster csvA] b
  have "\<exists>lg op. buildOperatorFromCSVResource subscribedCluster csvA = Inr (lg, op) \<and>
             SubscriptionName op = [''etcd''] ! 0"
    by blast
  ultimately show ?thesis using a b by simp
qed

text \<open>
  Claim C2.  \<open>FindTestTarget\<close> should never abort and should skip failing steps only.
  On \<open>busyMasterDownCluster\<close> the pod, identifier, operator and deployment steps
  contribute and the master query fails; the worker query would answer \<open>w1\<close> but is never
  run, and the catalog has no nodes (the early return of \<open>GetNodesList\<close>, as in C1).  On
  \<open>busyEmptySubscriptionCluster\<close> the subscription annotation of the operator is
  \<open>[]\<close> and the whole call panics at line 186.
\<close>

theorem FindTestTarget_master_failure:
  "RunNodeNames busyMasterDownCluster (WorkerLabel busyMasterDownCluster) = Inr [''w1''] \<and>
   FindTestTarget busyMasterDownCluster [targetLabel] emptyTarget ''tnf'' =
     Inr ([WarnPodTests ''tnf'' ''pod-a'' (GoError ''failed to find annotation''),
           WarnPodTests ''tnf'' ''pod-b'' (GoError ''failed to find annotation''),
           WarnOperatorTests ''tnf'' ''etcd.v1'' (GoError ''failed to find annotation''),
           InfoGotAllTests [''OPERATOR_STATUS''],
           WarnSubscriptionName ''etcd.v1'' (GoError ''failed to find annotation''),
           ErrorNodeList (GoError ''timeout'')],
          \<lparr>PodsUnderTest =
             [\<lparr>PodNamespace = ''tnf'', PodName = ''pod-a'', ServiceAccount = ''default'',
               ContainerCount = 2, PodTests = [''container'', ''multus'']\<rparr>,
              \<lparr>PodNamespace = ''tnf'', PodName = ''pod-b'', ServiceAccount = ''default'',
               ContainerCount = 1, PodTests = [''container'', ''multus'']\<rparr>],
           ContainerConfigList = [''pod-a'', ''pod-a'', ''pod-b''],
           Operators =
             [\<lparr>OpName = ''etcd.v1'', OpNamespace = ''tnf'', OpTests = [''OPERATOR_STATUS''],
               SubscriptionName = ''''\<rparr>],
           DeploymentsUnderTest = [\<lparr>DepName = ''dep-a'', DepNamespace = ''tnf'', Replicas = 2\<rparr>],
           Nodes = Map.empty,
           ExcludeContainersFromConnectivityTests = [''tnf/pod-b/c0'']\<rparr>) \<and>
   FindTestTarget busyEmptySubscriptionCluster [targetLabel] emptyTarget ''tnf'' =
     Inl IndexOutOfRange"
  by (simp add: Let_def FindTestTarget_def FindTestDeployments_def GetNodesList_def
        buildPodUnderTest_def buildOperatorFromCSVResource_def getConfiguredOperatorTests_def
        podTestsAnnotationName_def operatorTestsAnnotationName_def
        subscriptionNameAnnotationName_def operatorLabelName_def
        busyMasterDownCluster_def busyEmptySubscriptionCluster_def busyCluster_def
        quietCluster_def emptyTarget_def targetLabel_def podA_def podB_def csvA_def depA_def)

text \<open>
  Claim C9.  Two discovery runs with the same labels, filters and namespace, starting
  from the empty catalog, whose collaborators answer every query of the run alike,
  end alike: the results are equal, so the catalogs hold the same pods, operators and
  deployments (as multisets), the same node map and the same CRD names.
\<close>

theorem discovery_repeatable:
  assumes "sameResponses e1 e2 labels namespace"
  shows "FindTestTarget e1 labels emptyTarget namespace =
           FindTestTarget e2 labels emptyTarget namespace \<and>
         sameOutcome (FindTestTarget e1 labels emptyTarget namespace)
                     (FindTestTarget e2 labels emptyTarget namespace) \<and>
         FindTestCrdNames e1 crdFilters = FindTestCrdNames e2 crdFilters"
proof -
  note d = sameResponsesD [OF assms]
  have t: "FindTestTarget e1 labels emptyTarget namespace =
           FindTestTarget e2 labels emptyTarget namespace"
    by (rule FindTestTarget_cong [OF assms])
  have o: "sameOutcome r r" for r :: "abort + (logmsg list \<times> ('b, 'c) TestTarget)"
    by (cases r) (simp_all add: sameOutcome_def sameCatalog_def)
  have c: "FindTestCrdNames e1 crdFilters = FindTestCrdNames e2 crdFilters"
    by (rule FindTestCrdNames_cong [OF d(16,17)])
  from t o [of "FindTestTarget e2 labels emptyTarget namespace"] c show ?thesis by simp
qed

theorem discovery_repeatable_witness:
  "sameResponses busyCluster busyClusterAgain [targetLabel] ''tnf'' \<and>
   GetPodsByLabel busyCluster otherLabel ''tnf'' \<noteq> GetPodsByLabel busyClusterAgain otherLabel ''tnf'' \<and>
   FindTestTarget busyCluster [targetLabel] emptyTarget ''tnf'' =
     FindTestTarget busyClusterAgain [targetLabel] emptyTarget ''tnf'' \<and>
   sameOutcome (FindTestTarget busyCluster [targetLabel] emptyTarget ''tnf'')
               (FindTestTarget busyClusterAgain [targetLabel] emptyTarget ''tnf'') \<and>
   FindTestCrdNames busyCluster [\<lparr>NameSuffix = ''acme.io''\<rparr>] =
     FindTestCrdNames busyClusterAgain [\<lparr>NameSuffix = ''acme.io''\<rparr>]"
proof -
  have s: "sameResponses busyCluster busyClusterAgain [targetLabel] ''tnf''"
    by (simp add: sameResponses_def busyClusterAgain_def busyCluster_def quietCluster_def
          podTestsAnnotationName_def operatorTestsAnnotationName_def
          subscriptionNameAnnotationName_def ExecuteCommand_def)
  have n: "GetPodsByLabel busyCluster otherLabel ''tnf'' \<noteq>
           GetPodsByLabel busyClusterAgain otherLabel ''tnf''"
    by (simp add: busyClusterAgain_def busyCluster_def quietCluster_def otherLabel_def
          targetLabel_def)
  from discovery_repeatable [OF s, of "[\<lparr>NameSuffix = ''acme.io''\<rparr>]"] s n show ?thesis by blast
qed

end
